theory Spec2Isabelle
  imports Main
begin

section \<open>Google Kubernetes Engine operators\<close>

text \<open>
  A shallow embedding of
  \<^verbatim>\<open>airflow/providers/google/cloud/operators/kubernetes_engine.py\<close>:
  the three operators \<^verbatim>\<open>GKEDeleteClusterOperator\<close>,
  \<^verbatim>\<open>GKECreateClusterOperator\<close> and \<^verbatim>\<open>GKEStartPodOperator\<close>.
  Every method is a function that takes the operator (a record of its attributes) and the
  trace of effects performed so far, and returns its outcome together with the extended
  trace. The collaborators that live in other modules (the \<^verbatim>\<open>GKEHook\<close>, the link
  persistence, the constructors and methods of the base classes) are parameters.
\<close>

subsection \<open>Python values and exceptions\<close>

text \<open>
  The values a request body can hold. Dictionaries nested inside a value are association
  lists; only their emptiness is ever inspected.
\<close>

datatype pyval =
    PNone
  | PBool bool
  | PInt int
  | PStr string
  | PList "pyval list"
  | PDict "(string \<times> pyval) list"

text \<open>Python's truth value of an object, as \<^verbatim>\<open>if x:\<close> and \<^verbatim>\<open>any\<close>/\<^verbatim>\<open>all\<close> test it.\<close>

fun truthy :: "pyval \<Rightarrow> bool" where
  "truthy PNone = False"
| "truthy (PBool b) = b"
| "truthy (PInt i) = (i \<noteq> 0)"
| "truthy (PStr s) = (s \<noteq> [])"
| "truthy (PList xs) = (xs \<noteq> [])"
| "truthy (PDict kvs) = (kvs \<noteq> [])"

text \<open>Truth value of a \<^verbatim>\<open>str | None\<close> attribute.\<close>

fun truthy_opt_str :: "string option \<Rightarrow> bool" where
  "truthy_opt_str None = False"
| "truthy_opt_str (Some s) = (s \<noteq> [])"

text \<open>
  The exceptions the module raises or handles, each with its message.
  \<open>OtherError\<close> stands for any other exception a collaborator raises
  (\<^verbatim>\<open>NotFound\<close>, \<^verbatim>\<open>ServiceUnavailable\<close>, ...).
\<close>

datatype error =
    AirflowException string
  | AlreadyExists string
  | KeyError string
  | AttributeError string
  | ValueError string
  | OtherError string

text \<open>The type \<^verbatim>\<open>str | Sequence[str] | None\<close> of \<^verbatim>\<open>impersonation_chain\<close>.\<close>

datatype chain = ChainStr string | ChainSeq "string list"

subsection \<open>Messages of the container API\<close>

text \<open>
  \<^verbatim>\<open>google.cloud.container_v1.types.Cluster\<close>, with the fields this module reads.
  \<open>c_private_endpoint\<close> is \<^verbatim>\<open>private_cluster_config.private_endpoint\<close> and
  \<open>c_cluster_ca_certificate\<close> is \<^verbatim>\<open>master_auth.cluster_ca_certificate\<close>.
  A message-valued field (\<^verbatim>\<open>node_config\<close>) is the list of its populated fields: a
  proto message is true when it has one.
\<close>

record cluster =
  c_name :: string
  c_initial_node_count :: int
  c_node_config :: "(string \<times> pyval) list"
  c_node_pools :: "pyval list"
  c_zone :: string
  c_instance_group_urls :: "string list"
  c_endpoint :: string
  c_private_endpoint :: string
  c_cluster_ca_certificate :: string
  c_self_link :: string

text \<open>\<^verbatim>\<open>google.cloud.container_v1.types.Operation\<close>.\<close>

record operation =
  o_name :: string
  o_self_link :: string
  o_target_link :: string

text \<open>The parameter \<^verbatim>\<open>body: dict | Cluster\<close> of the create operator.\<close>

datatype body = DictBody "string \<rightharpoonup> pyval" | ClusterBody cluster

subsection \<open>Effects, triggers and outcomes\<close>

text \<open>
  What a method does besides returning: calls on the hook (the control plane), the
  persisted link, log records and warnings, in the order they happen.
\<close>

datatype effect =
    CreateCluster body "string option" bool
  | DeleteCluster string "string option" bool
  | GetCluster pyval "string option"
  | GetOperation string
  | PersistClusterLink body
  | LogError string
  | LogInfo string
  | LogException string
  | Warn string

fun is_call :: "effect \<Rightarrow> bool" where
  "is_call (CreateCluster b p w) = True"
| "is_call (DeleteCluster n p w) = True"
| "is_call (GetCluster n p) = True"
| "is_call (GetOperation n) = True"
| "is_call e = False"

definition calls :: "effect list \<Rightarrow> effect list" where
  "calls tr = filter is_call tr"


text \<open>
  The hook and the link helper. Every response may depend on the effects so far, and each
  call either raises (\<open>Inl\<close>) or returns. \<^verbatim>\<open>delete_cluster\<close> returns
  \<^verbatim>\<open>None\<close> for a cluster that is not there.
\<close>

record env =
  hook_create_cluster :: "effect list \<Rightarrow> body \<Rightarrow> string option \<Rightarrow> bool \<Rightarrow> error + operation"
  hook_delete_cluster :: "effect list \<Rightarrow> string \<Rightarrow> string option \<Rightarrow> bool \<Rightarrow> error + operation option"
  hook_get_cluster :: "effect list \<Rightarrow> pyval \<Rightarrow> string option \<Rightarrow> error + cluster"
  hook_get_operation :: "effect list \<Rightarrow> string \<Rightarrow> error + operation"
  link_persist :: "effect list \<Rightarrow> body \<Rightarrow> error option"

text \<open>\<^verbatim>\<open>GKEOperationTrigger(...)\<close> as the operators build it.\<close>

record operation_trigger =
  ot_operation_name :: string
  ot_project_id :: "string option"
  ot_location :: string
  ot_gcp_conn_id :: string
  ot_impersonation_chain :: "chain option"
  ot_poll_interval :: int

text \<open>The values of \<^verbatim>\<open>OnFinishAction\<close>, as the operator's docstring lists them.\<close>

datatype on_finish_action = KEEP_POD | DELETE_POD | DELETE_SUCCEEDED_POD

text \<open>\<^verbatim>\<open>GKEStartPodTrigger(...)\<close> as \<^verbatim>\<open>invoke_defer_method\<close> builds it.\<close>

record start_pod_trigger =
  pt_pod_name :: string
  pt_pod_namespace :: string
  pt_trigger_start_time :: int
  pt_cluster_url :: "string option"
  pt_ssl_ca_cert :: "string option"
  pt_get_logs :: bool
  pt_startup_timeout :: int
  pt_cluster_context :: "string option"
  pt_poll_interval :: int
  pt_in_cluster :: "bool option"
  pt_base_container_name :: string
  pt_on_finish_action :: on_finish_action
  pt_gcp_conn_id :: "string option"
  pt_impersonation_chain :: "chain option"

datatype trigger = GKEOperationTrigger operation_trigger | GKEStartPodTrigger start_pod_trigger

text \<open>
  How a method ends: it returns a value, raises, or calls \<^verbatim>\<open>self.defer\<close>, which
  suspends the task with a trigger, the name of the method to resume in and the keyword
  arguments to resume with.
\<close>

datatype 'a outcome =
    Return 'a
  | Raise error
  | Defer trigger string "(string \<rightharpoonup> string option) option"

fun is_Defer :: "'a outcome \<Rightarrow> bool" where
  "is_Defer (Defer t m k) = True"
| "is_Defer r = False"

subsection \<open>GKEDeleteClusterOperator\<close>

record gke_delete_operator =
  d_project_id :: "string option"
  d_gcp_conn_id :: string
  d_location :: string
  d_api_version :: string
  d_name :: string
  d_impersonation_chain :: "chain option"
  d_deferrable :: bool
  d_poll_interval :: int

text \<open>\<^verbatim>\<open>_check_input\<close>: \<^verbatim>\<open>all([self.project_id, self.name, self.location])\<close>.\<close>

definition d_check_input :: "gke_delete_operator \<Rightarrow> effect list \<Rightarrow> (error + unit) \<times> effect list" where
  "d_check_input self tr =
     (if \<not> (truthy_opt_str (d_project_id self) \<and> d_name self \<noteq> [] \<and> d_location self \<noteq> [])
      then (Inl (AirflowException ''Operator has incorrect or missing input.''),
            tr @ [LogError ''One of (project_id, name, location) is missing or incorrect''])
      else (Inr (), tr))"

text \<open>
  \<^verbatim>\<open>__init__\<close>. The constructor stores its arguments unchanged, so the arguments are
  given as the record of attributes; an omitted \<^verbatim>\<open>project_id\<close> is \<open>None\<close>.
  \<open>base_init\<close> is the outcome of \<^verbatim>\<open>super().__init__(**kwargs)\<close>, which handles the
  task arguments of the workflow engine: \<open>None\<close> when it returns.
\<close>

definition d_init :: "error option \<Rightarrow> gke_delete_operator \<Rightarrow> effect list
    \<Rightarrow> (error + gke_delete_operator) \<times> effect list" where
  "d_init base_init args tr =
     (case base_init of
        Some e \<Rightarrow> (Inl e, tr)
      | None \<Rightarrow>
          (case d_check_input args tr of
             (Inl e, tr') \<Rightarrow> (Inl e, tr')
           | (Inr u, tr') \<Rightarrow> (Inr args, tr')))"



subsection \<open>GKECreateClusterOperator\<close>

record gke_create_operator =
  cr_project_id :: "string option"
  cr_gcp_conn_id :: string
  cr_location :: string
  cr_api_version :: string
  cr_body :: body
  cr_impersonation_chain :: "chain option"
  cr_poll_interval :: int
  cr_deferrable :: bool

text \<open>
  \<^verbatim>\<open>getattr(cluster, field_name)\<close> on a \<^verbatim>\<open>Cluster\<close> message, for the scalar and
  repeated fields of the record; \<open>None\<close> is the \<^verbatim>\<open>AttributeError\<close> of a name that is
  not a field.
\<close>

definition cluster_getattr :: "cluster \<Rightarrow> string \<Rightarrow> pyval option" where
  "cluster_getattr c field_name =
     (if field_name = ''name'' then Some (PStr (c_name c))
      else if field_name = ''initial_node_count'' then Some (PInt (c_initial_node_count c))
      else if field_name = ''node_config'' then Some (PDict (c_node_config c))
      else if field_name = ''node_pools'' then Some (PList (c_node_pools c))
      else if field_name = ''zone'' then Some (PStr (c_zone c))
      else if field_name = ''instance_group_urls''
        then Some (PList (map PStr (c_instance_group_urls c)))
      else if field_name = ''endpoint'' then Some (PStr (c_endpoint c))
      else if field_name = ''self_link'' then Some (PStr (c_self_link c))
      else None)"

text \<open>\<^verbatim>\<open>_body_field(field_name)\<close>, with the default value \<^verbatim>\<open>None\<close>.\<close>

definition body_field :: "body \<Rightarrow> string \<Rightarrow> pyval" where
  "body_field b field_name =
     (case b of
        DictBody d \<Rightarrow> (case d field_name of None \<Rightarrow> PNone | Some v \<Rightarrow> v)
      | ClusterBody c \<Rightarrow> (case cluster_getattr c field_name of None \<Rightarrow> PNone | Some v \<Rightarrow> v))"

definition deprecated_body_fields_with_replacement :: "(string \<times> string) list" where
  "deprecated_body_fields_with_replacement =
     [(''initial_node_count'', ''node_pool.initial_node_count''),
      (''node_config'', ''node_pool.config''),
      (''zone'', ''location''),
      (''instance_group_urls'', ''node_pools.instance_group_urls'')]"

text \<open>\<^verbatim>\<open>_alert_deprecated_body_fields\<close>: the loop over the table.\<close>

fun alert_loop :: "body \<Rightarrow> (string \<times> string) list \<Rightarrow> effect list \<Rightarrow> effect list" where
  "alert_loop b [] tr = tr"
| "alert_loop b ((deprecated_field, replacement) # rest) tr =
     alert_loop b rest
       (if truthy (body_field b deprecated_field)
        then tr @ [Warn (''The body field '' @ [CHR 39] @ deprecated_field @ [CHR 39]
                         @ '' is deprecated. Use '' @ [CHR 39] @ replacement @ [CHR 39]
                         @ '' instead.'')]
        else tr)"

definition cr_alert_deprecated_body_fields :: "body \<Rightarrow> effect list \<Rightarrow> effect list" where
  "cr_alert_deprecated_body_fields b tr = alert_loop b deprecated_body_fields_with_replacement tr"

text \<open>The list \<^verbatim>\<open>error_messages\<close> that \<^verbatim>\<open>_validate_input\<close> collects, check by check.\<close>

definition cr_error_messages :: "body \<Rightarrow> string list" where
  "cr_error_messages b =
     (if \<not> truthy (body_field b ''name'')
      then [''Field body['name'] is missing or incorrect''] else [])
     @ (if truthy (body_field b ''initial_node_count'')
        then (if truthy (body_field b ''node_pools'')
              then [''Do not use filed body['initial_node_count'] and body['node_pools'] at the same time.'']
              else [])
        else [])
     @ (if truthy (body_field b ''node_config'')
        then (if truthy (body_field b ''node_pools'')
              then [''Do not use filed body['node_config'] and body['node_pools'] at the same time.'']
              else [])
        else [])
     @ (if truthy (body_field b ''node_pools'')
        then (if truthy (body_field b ''node_config'') \<or> truthy (body_field b ''initial_node_count'')
              then [''The field body['node_pools'] should not be set if body['node_config'] or body['initial_code_count'] are specified.'']
              else [])
        else [])
     @ (if \<not> (truthy (body_field b ''node_config'') \<or> truthy (body_field b ''initial_node_count''))
        then (if \<not> truthy (body_field b ''node_pools'')
              then [''Field body['node_pools'] is required if none of fields body['initial_node_count'] or body['node_pools'] are specified.'']
              else [])
        else [])"

text \<open>\<^verbatim>\<open>_validate_input\<close>.\<close>

definition cr_validate_input :: "body \<Rightarrow> effect list \<Rightarrow> (error + unit) \<times> effect list" where
  "cr_validate_input b tr =
     (let tr0 = cr_alert_deprecated_body_fields b tr;
          error_messages = cr_error_messages b;
          tr1 = tr0 @ map LogError error_messages
      in if error_messages \<noteq> []
         then (Inl (AirflowException ''Operator has incorrect or missing input.''), tr1)
         else (Inr (), tr1))"

text \<open>\<^verbatim>\<open>__init__\<close>, with \<open>base_init\<close> as for the delete operator.\<close>

definition cr_init :: "error option \<Rightarrow> gke_create_operator \<Rightarrow> effect list
    \<Rightarrow> (error + gke_create_operator) \<times> effect list" where
  "cr_init base_init args tr =
     (case base_init of
        Some e \<Rightarrow> (Inl e, tr)
      | None \<Rightarrow>
          (case cr_validate_input (cr_body args) tr of
             (Inl e, tr') \<Rightarrow> (Inl e, tr')
           | (Inr u, tr') \<Rightarrow> (Inr args, tr')))"

text \<open>The body of the \<^verbatim>\<open>try\<close> block of \<^verbatim>\<open>execute\<close>.\<close>

definition cr_execute_try :: "env \<Rightarrow> gke_create_operator \<Rightarrow> effect list
    \<Rightarrow> string outcome \<times> effect list" where
  "cr_execute_try hook self tr =
     (let wait_to_complete = \<not> cr_deferrable self;
          tr1 = tr @ [CreateCluster (cr_body self) (cr_project_id self) wait_to_complete]
      in case hook_create_cluster hook tr (cr_body self) (cr_project_id self) wait_to_complete of
           Inl e \<Rightarrow> (Raise e, tr1)
         | Inr operation \<Rightarrow>
             (let tr2 = tr1 @ [PersistClusterLink (cr_body self)]
              in case link_persist hook tr1 (cr_body self) of
                   Some e \<Rightarrow> (Raise e, tr2)
                 | None \<Rightarrow>
                     if cr_deferrable self
                     then (Defer (GKEOperationTrigger
                                    \<lparr>ot_operation_name = o_name operation,
                                     ot_project_id = cr_project_id self,
                                     ot_location = cr_location self,
                                     ot_gcp_conn_id = cr_gcp_conn_id self,
                                     ot_impersonation_chain = cr_impersonation_chain self,
                                     ot_poll_interval = cr_poll_interval self\<rparr>)
                             ''execute_complete'' None, tr2)
                     else (Return (o_target_link operation), tr2)))"

text \<open>
  \<^verbatim>\<open>self.body.name if isinstance(self.body, Cluster) else self.body["name"]\<close>
\<close>

definition body_name :: "body \<Rightarrow> error + pyval" where
  "body_name b =
     (case b of
        ClusterBody c \<Rightarrow> Inr (PStr (c_name c))
      | DictBody d \<Rightarrow> (case d ''name'' of None \<Rightarrow> Inl (KeyError ''name'') | Some v \<Rightarrow> Inr v))"

text \<open>The handler \<^verbatim>\<open>except AlreadyExists as error\<close>.\<close>

definition cr_already_exists :: "env \<Rightarrow> gke_create_operator \<Rightarrow> string \<Rightarrow> effect list
    \<Rightarrow> string outcome \<times> effect list" where
  "cr_already_exists hook self message tr =
     (let tr1 = tr @ [LogInfo (''Assuming Success: '' @ message)]
      in case body_name (cr_body self) of
           Inl e \<Rightarrow> (Raise e, tr1)
         | Inr name \<Rightarrow>
             (case hook_get_cluster hook tr1 name (cr_project_id self) of
                Inl e \<Rightarrow> (Raise e, tr1 @ [GetCluster name (cr_project_id self)])
              | Inr c \<Rightarrow> (Return (c_self_link c), tr1 @ [GetCluster name (cr_project_id self)])))"

text \<open>\<^verbatim>\<open>execute\<close>: the \<^verbatim>\<open>try\<close> block, and the handler for the one exception it catches.\<close>

definition cr_execute :: "env \<Rightarrow> gke_create_operator \<Rightarrow> effect list
    \<Rightarrow> string outcome \<times> effect list" where
  "cr_execute hook self tr =
     (case cr_execute_try hook self tr of
        (Raise (AlreadyExists message), tr') \<Rightarrow> cr_already_exists hook self message tr'
      | r \<Rightarrow> r)"


subsection \<open>GKEStartPodOperator\<close>

text \<open>
  The keyword arguments \<^verbatim>\<open>**kwargs\<close> that go on to
  \<^verbatim>\<open>KubernetesPodOperator.__init__\<close>: the two this module is concerned with, and the
  rest (\<^verbatim>\<open>image\<close>, \<^verbatim>\<open>namespace\<close>, ...), which it does not touch.
\<close>

record pod_kwargs =
  kw_on_finish_action :: "on_finish_action option"
  kw_config_file :: "string option"
  kw_other :: "string \<rightharpoonup> pyval"

text \<open>
  The attributes of the base class \<^verbatim>\<open>KubernetesPodOperator\<close> that this module reads.
\<close>

record pod_operator =
  p_config_file :: "string option"
  p_on_finish_action :: on_finish_action
  p_get_logs :: bool
  p_startup_timeout_seconds :: int
  p_cluster_context :: "string option"
  p_poll_interval :: int
  p_in_cluster :: "bool option"
  p_base_container_name :: string

text \<open>\<^verbatim>\<open>V1Pod\<close>: \<^verbatim>\<open>metadata.name\<close> and \<^verbatim>\<open>metadata.namespace\<close>.\<close>

record v1pod =
  pod_metadata_name :: string
  pod_metadata_namespace :: string

text \<open>\<^verbatim>\<open>GKEPodHook(...)\<close>, the session to the cluster, as the property \<^verbatim>\<open>hook\<close> builds it.\<close>

record gke_pod_hook =
  ph_gcp_conn_id :: "string option"
  ph_cluster_url :: string
  ph_ssl_ca_cert :: string
  ph_impersonation_chain :: "chain option"

text \<open>
  The operator. \<open>sp_hook_cache\<close> is the slot in which \<^verbatim>\<open>@cached_property\<close> keeps the
  value of \<^verbatim>\<open>hook\<close> once the property has returned one.
\<close>

record gke_start_pod_operator =
  sp_base :: pod_operator
  sp_project_id :: "string option"
  sp_location :: string
  sp_cluster_name :: string
  sp_gcp_conn_id :: "string option"
  sp_impersonation_chain :: "chain option"
  sp_use_internal_ip :: bool
  sp_pod :: "v1pod option"
  sp_ssl_ca_cert :: "string option"
  sp_cluster_url :: "string option"
  sp_hook_cache :: "gke_pod_hook option"

text \<open>The parameters of \<^verbatim>\<open>__init__\<close>; a parameter left out has its default.\<close>

record start_pod_args =
  a_location :: string
  a_cluster_name :: string
  a_use_internal_ip :: bool
  a_project_id :: "string option"
  a_gcp_conn_id :: "string option"
  a_impersonation_chain :: "chain option"
  a_regional :: "bool option"
  a_on_finish_action :: "string option"
  a_is_delete_operator_pod :: "bool option"
  a_kwargs :: pod_kwargs

text \<open>
  \<^verbatim>\<open>OnFinishAction(value)\<close>: the member of the enumeration with that value, or
  \<^verbatim>\<open>ValueError\<close>. The enumeration is declared in another module; its values are those
  the docstring of the operator lists.
\<close>

definition OnFinishAction :: "string \<Rightarrow> error + on_finish_action" where
  "OnFinishAction v =
     (if v = ''keep_pod'' then Inr KEEP_POD
      else if v = ''delete_pod'' then Inr DELETE_POD
      else if v = ''delete_succeeded_pod'' then Inr DELETE_SUCCEEDED_POD
      else Inl (ValueError ([CHR 39] @ v @ [CHR 39] @ '' is not a valid OnFinishAction'')))"

text \<open>
  The first statement of \<^verbatim>\<open>__init__\<close>: the value of \<^verbatim>\<open>kwargs["on_finish_action"]\<close>.
  \<open>of_value\<close> is the call \<^verbatim>\<open>OnFinishAction(on_finish_action)\<close>.
\<close>

definition sp_resolve_on_finish_action :: "(string \<Rightarrow> error + on_finish_action) \<Rightarrow> start_pod_args
    \<Rightarrow> effect list \<Rightarrow> (error + pod_kwargs) \<times> effect list" where
  "sp_resolve_on_finish_action of_value args tr =
     (case a_is_delete_operator_pod args of
        Some is_delete_operator_pod \<Rightarrow>
          (Inr ((a_kwargs args)\<lparr>kw_on_finish_action :=
                   Some (if is_delete_operator_pod then DELETE_POD else KEEP_POD)\<rparr>),
           tr @ [Warn ''`is_delete_operator_pod` parameter is deprecated, please use `on_finish_action`''])
      | None \<Rightarrow>
          (case a_on_finish_action args of
             Some on_finish_action \<Rightarrow>
               (case of_value on_finish_action of
                  Inl e \<Rightarrow> (Inl e, tr)
                | Inr action \<Rightarrow> (Inr ((a_kwargs args)\<lparr>kw_on_finish_action := Some action\<rparr>), tr))
           | None \<Rightarrow>
               (Inr ((a_kwargs args)\<lparr>kw_on_finish_action := Some KEEP_POD\<rparr>),
                tr @ [Warn (''You have not set parameter `on_finish_action` in class GKEStartPodOperator. ''
                  @ ''Currently the default for this parameter is `keep_pod` but in a future release''
                  @ '' the default will be changed to `delete_pod`. To ensure pods are not deleted in''
                  @ '' the future you will need to set `on_finish_action=keep_pod` explicitly.'')])))"

text \<open>
  \<^verbatim>\<open>__init__\<close>. \<open>pod_init\<close> is \<^verbatim>\<open>super().__init__(**kwargs)\<close>, which raises or leaves
  the attributes of the base class.
\<close>

definition sp_init :: "(string \<Rightarrow> error + on_finish_action) \<Rightarrow> (pod_kwargs \<Rightarrow> error + pod_operator)
    \<Rightarrow> start_pod_args \<Rightarrow> effect list \<Rightarrow> (error + gke_start_pod_operator) \<times> effect list" where
  "sp_init of_value pod_init args tr =
     (case sp_resolve_on_finish_action of_value args tr of
        (Inl e, tr1) \<Rightarrow> (Inl e, tr1)
      | (Inr kwargs, tr1) \<Rightarrow>
          (let tr2 = (if a_regional args \<noteq> None
                      then tr1 @ [Warn (''You have set parameter regional in class GKEStartPodOperator. ''
                        @ ''In current implementation of the operator the parameter is not used and will ''
                        @ ''be deleted in future.'')]
                      else tr1)
           in case pod_init kwargs of
                Inl e \<Rightarrow> (Inl e, tr2)
              | Inr base \<Rightarrow>
                  (let self = \<lparr>sp_base = base,
                               sp_project_id = a_project_id args,
                               sp_location = a_location args,
                               sp_cluster_name = a_cluster_name args,
                               sp_gcp_conn_id = a_gcp_conn_id args,
                               sp_impersonation_chain = a_impersonation_chain args,
                               sp_use_internal_ip = a_use_internal_ip args,
                               sp_pod = None,
                               sp_ssl_ca_cert = None,
                               sp_cluster_url = None,
                               sp_hook_cache = None\<rparr>
                   in if sp_gcp_conn_id self = None
                      then (Inl (AirflowException
                              (''The gcp_conn_id parameter has become required. If you want to use Application Default ''
                               @ ''Credentials (ADC) strategy for authorization, create an empty connection ''
                               @ ''called `google_cloud_default`.'')), tr2)
                      else if truthy_opt_str (p_config_file (sp_base self))
                      then (Inl (AirflowException
                              ''config_file is not an allowed parameter for the GKEStartPodOperator.''), tr2)
                      else (Inr self, tr2))))"

text \<open>
  The property \<^verbatim>\<open>hook\<close>: the cached value when there is one, else the body of the
  property, whose value (not its exception) is then cached.
\<close>

definition sp_hook :: "gke_start_pod_operator \<Rightarrow> (error + gke_pod_hook) \<times> gke_start_pod_operator" where
  "sp_hook self =
     (case sp_hook_cache self of
        Some cached \<Rightarrow> (Inr cached, self)
      | None \<Rightarrow>
          (case sp_cluster_url self of
             None \<Rightarrow>
               (Inl (AttributeError
                  (''Cluster url and ssl_ca_cert should be defined before using self.hook method. ''
                   @ ''Try to use self.get_kube_creds method'')), self)
           | Some cluster_url \<Rightarrow>
               (case sp_ssl_ca_cert self of
                  None \<Rightarrow>
                    (Inl (AttributeError
                       (''Cluster url and ssl_ca_cert should be defined before using self.hook method. ''
                        @ ''Try to use self.get_kube_creds method'')), self)
                | Some ssl_ca_cert \<Rightarrow>
                    (let hook = \<lparr>ph_gcp_conn_id = sp_gcp_conn_id self,
                                 ph_cluster_url = cluster_url,
                                 ph_ssl_ca_cert = ssl_ca_cert,
                                 ph_impersonation_chain = sp_impersonation_chain self\<rparr>
                     in (Inr hook, self\<lparr>sp_hook_cache := Some hook\<rparr>)))))"

text \<open>\<^verbatim>\<open>fetch_cluster_info\<close>.\<close>

definition sp_fetch_cluster_info :: "env \<Rightarrow> gke_start_pod_operator \<Rightarrow> effect list
    \<Rightarrow> (error + string \<times> string) \<times> gke_start_pod_operator \<times> effect list" where
  "sp_fetch_cluster_info cluster_hook self tr =
     (let tr1 = tr @ [GetCluster (PStr (sp_cluster_name self)) (sp_project_id self)]
      in case hook_get_cluster cluster_hook tr (PStr (sp_cluster_name self)) (sp_project_id self) of
           Inl e \<Rightarrow> (Inl e, self, tr1)
         | Inr cluster \<Rightarrow>
             (let cluster_url =
                    (if \<not> sp_use_internal_ip self
                     then ''https://'' @ c_endpoint cluster
                     else ''https://'' @ c_private_endpoint cluster);
                  ssl_ca_cert = c_cluster_ca_certificate cluster
              in (Inr (cluster_url, ssl_ca_cert),
                  self\<lparr>sp_cluster_url := Some cluster_url, sp_ssl_ca_cert := Some ssl_ca_cert\<rparr>,
                  tr1)))"

text \<open>
  \<^verbatim>\<open>execute\<close>. \<open>super_execute\<close> is \<^verbatim>\<open>KubernetesPodOperator.execute\<close>, which runs on
  the operator as \<^verbatim>\<open>fetch_cluster_info\<close> left it.
\<close>

definition sp_execute :: "(gke_start_pod_operator \<Rightarrow> effect list \<Rightarrow> 'r outcome \<times> gke_start_pod_operator \<times> effect list)
    \<Rightarrow> env \<Rightarrow> gke_start_pod_operator \<Rightarrow> effect list
    \<Rightarrow> 'r outcome \<times> gke_start_pod_operator \<times> effect list" where
  "sp_execute super_execute cluster_hook self tr =
     (case sp_fetch_cluster_info cluster_hook self tr of
        (Inl e, self', tr') \<Rightarrow> (Raise e, self', tr')
      | (Inr info, self', tr') \<Rightarrow> super_execute self' tr')"


text \<open>
  \<^verbatim>\<open>execute_complete\<close>. \<open>super_execute_complete\<close> is the method of the base class, which
  runs on the operator with both attributes restored.
\<close>

definition sp_execute_complete :: "(gke_start_pod_operator \<Rightarrow> 'e \<Rightarrow> (string \<rightharpoonup> string option) \<Rightarrow> effect list
      \<Rightarrow> 'r outcome \<times> gke_start_pod_operator \<times> effect list)
    \<Rightarrow> gke_start_pod_operator \<Rightarrow> 'e \<Rightarrow> (string \<rightharpoonup> string option) \<Rightarrow> effect list
    \<Rightarrow> 'r outcome \<times> gke_start_pod_operator \<times> effect list" where
  "sp_execute_complete super_execute_complete self event kwargs tr =
     (case kwargs ''cluster_url'' of
        None \<Rightarrow> (Raise (KeyError ''cluster_url''), self, tr)
      | Some cluster_url \<Rightarrow>
          (case kwargs ''ssl_ca_cert'' of
             None \<Rightarrow> (Raise (KeyError ''ssl_ca_cert''), self\<lparr>sp_cluster_url := cluster_url\<rparr>, tr)
           | Some ssl_ca_cert \<Rightarrow>
               super_execute_complete
                 (self\<lparr>sp_cluster_url := cluster_url, sp_ssl_ca_cert := ssl_ca_cert\<rparr>)
                 event kwargs tr))"

subsection \<open>Concrete scenarios\<close>

text \<open>
  Operators, messages and control planes on which the properties below are evaluated:
  a control plane that accepts every request, one on which the cluster already exists,
  one on which the cluster already exists and cannot be read back, and one on which the
  cluster to delete is absent.
\<close>

definition the_operation :: operation where
  "the_operation =
     \<lparr>o_name = ''operation-1'',
      o_self_link = ''https://container.googleapis.com/v1/projects/my-project/operations/operation-1'',
      o_target_link = ''https://container.googleapis.com/v1/projects/my-project/clusters/my-cluster''\<rparr>"

definition the_cluster :: cluster where
  "the_cluster =
     \<lparr>c_name = ''my-cluster'',
      c_initial_node_count = 1,
      c_node_config = [],
      c_node_pools = [],
      c_zone = [],
      c_instance_group_urls = [],
      c_endpoint = ''203.0.113.7'',
      c_private_endpoint = ''10.0.0.2'',
      c_cluster_ca_certificate = ''LS0tLS1CRUdJTg=='',
      c_self_link = ''https://container.googleapis.com/v1/projects/my-project/clusters/my-cluster''\<rparr>"

definition env_ok :: env where
  "env_ok =
     \<lparr>hook_create_cluster = (\<lambda>tr b p w. Inr the_operation),
      hook_delete_cluster = (\<lambda>tr n p w. Inr (Some the_operation)),
      hook_get_cluster = (\<lambda>tr n p. Inr the_cluster),
      hook_get_operation = (\<lambda>tr n. Inr the_operation),
      link_persist = (\<lambda>tr b. None)\<rparr>"

definition env_exists :: env where
  "env_exists = env_ok\<lparr>hook_create_cluster := (\<lambda>tr b p w. Inl (AlreadyExists ''409 Already exists''))\<rparr>"

definition env_exists_unavailable :: env where
  "env_exists_unavailable =
     env_exists\<lparr>hook_get_cluster := (\<lambda>tr n p. Inl (OtherError ''503 Service Unavailable''))\<rparr>"


definition the_create_operator :: "bool \<Rightarrow> gke_create_operator" where
  "the_create_operator deferrable =
     \<lparr>cr_project_id = Some ''my-project'',
      cr_gcp_conn_id = ''google_cloud_default'',
      cr_location = ''europe-west1'',
      cr_api_version = ''v2'',
      cr_body = DictBody [''name'' \<mapsto> PStr ''my-cluster'', ''initial_node_count'' \<mapsto> PInt 1],
      cr_impersonation_chain = None,
      cr_poll_interval = 10,
      cr_deferrable = deferrable\<rparr>"


text \<open>
  For the pod operator: a constructor of the base class that stores the keyword arguments
  it is given and fills the other attributes with their defaults, the arguments of a
  minimal construction, and the operator that construction yields.
\<close>

definition the_pod_init :: "pod_kwargs \<Rightarrow> error + pod_operator" where
  "the_pod_init kwargs =
     Inr \<lparr>p_config_file = kw_config_file kwargs,
          p_on_finish_action =
            (case kw_on_finish_action kwargs of None \<Rightarrow> KEEP_POD | Some action \<Rightarrow> action),
          p_get_logs = True,
          p_startup_timeout_seconds = 120,
          p_cluster_context = None,
          p_poll_interval = 2,
          p_in_cluster = None,
          p_base_container_name = ''base''\<rparr>"

definition the_start_pod_args :: start_pod_args where
  "the_start_pod_args =
     \<lparr>a_location = ''europe-west1'',
      a_cluster_name = ''my-cluster'',
      a_use_internal_ip = False,
      a_project_id = Some ''my-project'',
      a_gcp_conn_id = Some ''google_cloud_default'',
      a_impersonation_chain = None,
      a_regional = None,
      a_on_finish_action = None,
      a_is_delete_operator_pod = None,
      a_kwargs = \<lparr>kw_on_finish_action = None, kw_config_file = None,
                  kw_other = [''image'' \<mapsto> PStr ''ubuntu'', ''namespace'' \<mapsto> PStr ''default'']\<rparr>\<rparr>"

definition the_start_pod_operator :: "bool \<Rightarrow> gke_start_pod_operator" where
  "the_start_pod_operator use_internal_ip =
     \<lparr>sp_base = \<lparr>p_config_file = None, p_on_finish_action = KEEP_POD, p_get_logs = True,
                  p_startup_timeout_seconds = 120, p_cluster_context = None,
                  p_poll_interval = 2, p_in_cluster = None, p_base_container_name = ''base''\<rparr>,
      sp_project_id = Some ''my-project'',
      sp_location = ''europe-west1'',
      sp_cluster_name = ''my-cluster'',
      sp_gcp_conn_id = Some ''google_cloud_default'',
      sp_impersonation_chain = None,
      sp_use_internal_ip = use_internal_ip,
      sp_pod = None,
      sp_ssl_ca_cert = None,
      sp_cluster_url = None,
      sp_hook_cache = None\<rparr>"


definition open_session :: "gke_start_pod_operator \<Rightarrow> unit \<Rightarrow> (string \<rightharpoonup> string option)
    \<Rightarrow> effect list \<Rightarrow> (error + gke_pod_hook) outcome \<times> gke_start_pod_operator \<times> effect list" where
  "open_session self event kwargs tr = (Return (fst (sp_hook self)), snd (sp_hook self), tr)"

section \<open>Properties\<close>

subsection \<open>Calls on the control plane in a trace\<close>

lemma calls_append: "calls (xs @ ys) = calls xs @ calls ys"
  by (simp add: calls_def)

lemma calls_map_LogError: "calls (map LogError ms) = []"
  by (induction ms) (simp_all add: calls_def)

lemma calls_alert_loop: "calls (alert_loop b xs tr) = calls tr"
  by (induction b xs tr rule: alert_loop.induct) (simp_all add: calls_def)

lemma calls_cr_validate_input: "calls (snd (cr_validate_input b tr)) = calls tr"
  by (simp add: cr_validate_input_def Let_def cr_alert_deprecated_body_fields_def
      calls_append calls_map_LogError calls_alert_loop)

lemma calls_d_init: "calls (snd (d_init base_init args tr)) = calls tr"
  by (simp add: d_init_def d_check_input_def calls_def split: option.splits)

lemma calls_cr_init: "calls (snd (cr_init base_init args tr)) = calls tr"
  using calls_cr_validate_input [of "cr_body args" tr]
  by (auto simp: cr_init_def split: option.splits prod.splits sum.splits)

subsection \<open>Construction of the delete operator\<close>

text \<open>
  C9. Constructing \<^verbatim>\<open>GKEDeleteClusterOperator\<close> fails whenever \<^verbatim>\<open>project_id\<close> is
  \<^verbatim>\<open>None\<close> (its default, so also when it is omitted) or empty, or the name or the location
  is empty, whatever the other arguments are. The failure is the
  \<^verbatim>\<open>AirflowException\<close> of \<^verbatim>\<open>_check_input\<close> once the constructor of the base class has
  returned, and the constructor makes no call on the control plane.
\<close>

theorem d_init_rejects_missing_input:
  assumes "d_project_id args = None \<or> d_project_id args = Some [] \<or> d_name args = []
           \<or> d_location args = []"
  shows "(\<exists>e. fst (d_init base_init args tr) = Inl e)
       \<and> (base_init = None \<longrightarrow>
            d_init base_init args tr =
              (Inl (AirflowException ''Operator has incorrect or missing input.''),
               tr @ [LogError ''One of (project_id, name, location) is missing or incorrect'']))
       \<and> calls (snd (d_init base_init args tr)) = calls tr"
  using assms calls_d_init [of base_init args tr]
  by (auto simp: d_init_def d_check_input_def split: option.splits)

theorem d_init_rejects_missing_input_witness:
  "d_init None \<lparr>d_project_id = None, d_gcp_conn_id = ''google_cloud_default'',
       d_location = ''europe-west1'', d_api_version = ''v2'', d_name = ''my-cluster'',
       d_impersonation_chain = None, d_deferrable = False, d_poll_interval = 10\<rparr> []
   = (Inl (AirflowException ''Operator has incorrect or missing input.''),
      [LogError ''One of (project_id, name, location) is missing or incorrect''])"
  using d_init_rejects_missing_input [of "\<lparr>d_project_id = None,
       d_gcp_conn_id = ''google_cloud_default'',
       d_location = ''europe-west1'', d_api_version = ''v2'', d_name = ''my-cluster'',
       d_impersonation_chain = None, d_deferrable = False, d_poll_interval = 10\<rparr>" None "[]"]
  by simp

subsection \<open>Validation of the cluster definition\<close>

lemma cr_error_messages_empty_iff:
  "cr_error_messages b = [] \<longleftrightarrow>
     truthy (body_field b ''name'')
     \<and> ((truthy (body_field b ''node_config'') \<or> truthy (body_field b ''initial_node_count''))
         \<noteq> truthy (body_field b ''node_pools''))"
  by (auto simp: cr_error_messages_def)

lemma fst_cr_init:
  "fst (cr_init base_init args tr) =
     (case base_init of
        Some e \<Rightarrow> Inl e
      | None \<Rightarrow> (if cr_error_messages (cr_body args) = [] then Inr args
                 else Inl (AirflowException ''Operator has incorrect or missing input.'')))"
  by (simp add: cr_init_def cr_validate_input_def Let_def split: option.splits)

text \<open>
  C1. A field of the body counts as set when \<^verbatim>\<open>_body_field\<close> returns a true value for
  it, and the legacy group as set when \<^verbatim>\<open>node_config\<close> or \<^verbatim>\<open>initial_node_count\<close> is.
  The constructor of \<^verbatim>\<open>GKECreateClusterOperator\<close> returns an operator only for a body
  with a name in which exactly one of the legacy group and \<^verbatim>\<open>node_pools\<close> is set. A body
  with \<^verbatim>\<open>node_pools\<close> and \<^verbatim>\<open>initial_node_count\<close>, with \<^verbatim>\<open>node_pools\<close> and
  \<^verbatim>\<open>node_config\<close>, or with none of the three makes the constructor fail, with the
  \<^verbatim>\<open>AirflowException\<close> of \<^verbatim>\<open>_validate_input\<close> once the constructor of the base
  class has returned. The constructor makes no call on the control plane.
\<close>

theorem cr_init_exactly_one_node_group:
  "(\<forall>self. fst (cr_init base_init args tr) = Inr self \<longrightarrow>
       self = args
       \<and> truthy (body_field (cr_body args) ''name'')
       \<and> ((truthy (body_field (cr_body args) ''node_config'')
            \<or> truthy (body_field (cr_body args) ''initial_node_count''))
           \<noteq> truthy (body_field (cr_body args) ''node_pools'')))
   \<and> ((truthy (body_field (cr_body args) ''node_pools'')
          \<and> truthy (body_field (cr_body args) ''initial_node_count''))
       \<or> (truthy (body_field (cr_body args) ''node_pools'')
          \<and> truthy (body_field (cr_body args) ''node_config''))
       \<or> (\<not> truthy (body_field (cr_body args) ''node_config'')
          \<and> \<not> truthy (body_field (cr_body args) ''initial_node_count'')
          \<and> \<not> truthy (body_field (cr_body args) ''node_pools''))
       \<longrightarrow> (\<exists>e. fst (cr_init base_init args tr) = Inl e)
           \<and> (base_init = None \<longrightarrow>
                fst (cr_init base_init args tr) =
                  Inl (AirflowException ''Operator has incorrect or missing input.'')))
   \<and> calls (snd (cr_init base_init args tr)) = calls tr"
proof -
  have accepted: "\<forall>self. fst (cr_init base_init args tr) = Inr self \<longrightarrow>
       self = args
       \<and> truthy (body_field (cr_body args) ''name'')
       \<and> ((truthy (body_field (cr_body args) ''node_config'')
            \<or> truthy (body_field (cr_body args) ''initial_node_count''))
           \<noteq> truthy (body_field (cr_body args) ''node_pools''))"
    using cr_error_messages_empty_iff [of "cr_body args"]
    by (auto simp: fst_cr_init split: option.splits if_splits)
  have rejected: "(truthy (body_field (cr_body args) ''node_pools'')
          \<and> truthy (body_field (cr_body args) ''initial_node_count''))
       \<or> (truthy (body_field (cr_body args) ''node_pools'')
          \<and> truthy (body_field (cr_body args) ''node_config''))
       \<or> (\<not> truthy (body_field (cr_body args) ''node_config'')
          \<and> \<not> truthy (body_field (cr_body args) ''initial_node_count'')
          \<and> \<not> truthy (body_field (cr_body args) ''node_pools''))
       \<longrightarrow> (\<exists>e. fst (cr_init base_init args tr) = Inl e)
           \<and> (base_init = None \<longrightarrow>
                fst (cr_init base_init args tr) =
                  Inl (AirflowException ''Operator has incorrect or missing input.''))"
    using cr_error_messages_empty_iff [of "cr_body args"]
    by (auto simp: fst_cr_init split: option.splits if_splits)
  show ?thesis
    using accepted rejected calls_cr_init [of base_init args tr] by blast
qed

theorem cr_init_exactly_one_node_group_witness:
  "fst (cr_init None
     \<lparr>cr_project_id = Some ''my-project'', cr_gcp_conn_id = ''google_cloud_default'',
      cr_location = ''europe-west1'', cr_api_version = ''v2'',
      cr_body = DictBody [''name'' \<mapsto> PStr ''my-cluster'', ''initial_node_count'' \<mapsto> PInt 1,
                  ''node_pools'' \<mapsto> PList [PDict [(''name'', PStr ''pool-1'')]]],
      cr_impersonation_chain = None, cr_poll_interval = 10, cr_deferrable = False\<rparr> [])
   = Inl (AirflowException ''Operator has incorrect or missing input.'')"
  using cr_init_exactly_one_node_group [of None
     "\<lparr>cr_project_id = Some ''my-project'', cr_gcp_conn_id = ''google_cloud_default'',
      cr_location = ''europe-west1'', cr_api_version = ''v2'',
      cr_body = DictBody [''name'' \<mapsto> PStr ''my-cluster'', ''initial_node_count'' \<mapsto> PInt 1,
                  ''node_pools'' \<mapsto> PList [PDict [(''name'', PStr ''pool-1'')]]],
      cr_impersonation_chain = None, cr_poll_interval = 10, cr_deferrable = False\<rparr>" "[]"]
  by (simp add: body_field_def)

subsection \<open>A cluster that already exists\<close>

lemma body_name_of_truthy:
  assumes "truthy (body_field b ''name'')"
  shows "\<exists>name. body_name b = Inr name \<and> name = body_field b ''name''"
  using assms
  by (cases b) (auto simp: body_name_def body_field_def cluster_getattr_def split: option.splits)

lemma cr_init_body_name:
  assumes "fst (cr_init base_init args tr0) = Inr self"
  shows "body_name (cr_body self) = Inr (body_field (cr_body self) ''name'')"
proof -
  from assms have "self = args" and "cr_error_messages (cr_body args) = []"
    by (auto simp: fst_cr_init split: option.splits if_splits)
  then have "truthy (body_field (cr_body self) ''name'')"
    using cr_error_messages_empty_iff [of "cr_body self"] by simp
  then show ?thesis using body_name_of_truthy by fastforce
qed

text \<open>
  C2 (as amended). Let the operator be one the constructor returned, and let
  \<^verbatim>\<open>create_cluster\<close> raise \<^verbatim>\<open>AlreadyExists\<close>. Then \<^verbatim>\<open>execute\<close> logs the message, asks the
  hook for the cluster named by the body, and registers no trigger. When that request returns
  a cluster, \<^verbatim>\<open>execute\<close> returns the cluster's link; when the request itself raises, the
  exception leaves \<^verbatim>\<open>execute\<close>.
\<close>

theorem cr_execute_already_exists:
  assumes "fst (cr_init base_init args tr0) = Inr self"
      and "hook_create_cluster hook tr (cr_body self) (cr_project_id self) (\<not> cr_deferrable self)
             = Inl (AlreadyExists message)"
  shows "snd (cr_execute hook self tr) =
           tr @ [CreateCluster (cr_body self) (cr_project_id self) (\<not> cr_deferrable self),
                 LogInfo (''Assuming Success: '' @ message),
                 GetCluster (body_field (cr_body self) ''name'') (cr_project_id self)]
       \<and> \<not> is_Defer (fst (cr_execute hook self tr))
       \<and> (\<forall>c. hook_get_cluster hook
                 (tr @ [CreateCluster (cr_body self) (cr_project_id self) (\<not> cr_deferrable self),
                        LogInfo (''Assuming Success: '' @ message)])
                 (body_field (cr_body self) ''name'') (cr_project_id self) = Inr c
              \<longrightarrow> fst (cr_execute hook self tr) = Return (c_self_link c))
       \<and> (\<forall>e. hook_get_cluster hook
                 (tr @ [CreateCluster (cr_body self) (cr_project_id self) (\<not> cr_deferrable self),
                        LogInfo (''Assuming Success: '' @ message)])
                 (body_field (cr_body self) ''name'') (cr_project_id self) = Inl e
              \<longrightarrow> fst (cr_execute hook self tr) = Raise e)"
  using cr_init_body_name [OF assms(1)] assms(2)
  by (auto simp: cr_execute_def cr_execute_try_def cr_already_exists_def Let_def
      split: sum.splits)

lemma the_create_operator_init:
  "fst (cr_init None (the_create_operator d) []) = Inr (the_create_operator d)"
  by (simp add: fst_cr_init cr_error_messages_def the_create_operator_def body_field_def)

theorem cr_execute_already_exists_witness:
  "cr_execute env_exists (the_create_operator True) [] =
     (Return ''https://container.googleapis.com/v1/projects/my-project/clusters/my-cluster'',
      [CreateCluster (cr_body (the_create_operator True)) (Some ''my-project'') False,
       LogInfo ''Assuming Success: 409 Already exists'',
       GetCluster (PStr ''my-cluster'') (Some ''my-project'')])"
  using cr_execute_already_exists [of None "the_create_operator True" "[]" "the_create_operator True"
      env_exists "[]" "''409 Already exists''"] the_create_operator_init [of True]
  apply (simp add: env_exists_def env_ok_def the_cluster_def)
  apply (simp add: the_create_operator_def body_field_def prod_eq_iff)
  done

text \<open>
  The claim as it is written, that \<^verbatim>\<open>execute\<close> never raises once \<^verbatim>\<open>create_cluster\<close> has
  raised \<^verbatim>\<open>AlreadyExists\<close>, fails on a control plane that cannot return the existing cluster.
\<close>

theorem cr_execute_already_exists_counterexample:
  "hook_create_cluster env_exists_unavailable [] (cr_body (the_create_operator False))
       (cr_project_id (the_create_operator False)) True = Inl (AlreadyExists ''409 Already exists'')
   \<and> fst (cr_execute env_exists_unavailable (the_create_operator False) [])
       = Raise (OtherError ''503 Service Unavailable'')"
  by (simp add: cr_execute_def cr_execute_try_def cr_already_exists_def Let_def
      env_exists_unavailable_def env_exists_def env_ok_def the_create_operator_def body_name_def)

subsection \<open>Resuming after the trigger\<close>



subsection \<open>Synchronous and deferred mode\<close>






subsection \<open>The endpoint of the cluster\<close>

text \<open>
  C5. When \<^verbatim>\<open>get_cluster\<close> returns a cluster, \<^verbatim>\<open>fetch_cluster_info\<close> makes that one
  call, returns the CA certificate of the cluster with the URL, and stores both. The URL is
  \<^verbatim>\<open>https://\<close> followed by the private endpoint when \<^verbatim>\<open>use_internal_ip\<close> is true, and
  by the public endpoint when it is false. With \<^verbatim>\<open>use_internal_ip\<close> true the public
  endpoint has no influence: a cluster that differs in it alone gives the same result.
\<close>

theorem fetch_cluster_info_endpoint:
  assumes "hook_get_cluster cluster_hook tr (PStr (sp_cluster_name self)) (sp_project_id self)
             = Inr cluster"
  shows "sp_fetch_cluster_info cluster_hook self tr =
           (Inr (''https://'' @ (if sp_use_internal_ip self then c_private_endpoint cluster
                                 else c_endpoint cluster),
                 c_cluster_ca_certificate cluster),
            self\<lparr>sp_cluster_url :=
                    Some (''https://'' @ (if sp_use_internal_ip self then c_private_endpoint cluster
                                          else c_endpoint cluster)),
                  sp_ssl_ca_cert := Some (c_cluster_ca_certificate cluster)\<rparr>,
            tr @ [GetCluster (PStr (sp_cluster_name self)) (sp_project_id self)])
       \<and> (sp_use_internal_ip self \<longrightarrow>
            (\<forall>other_hook public.
               hook_get_cluster other_hook tr (PStr (sp_cluster_name self)) (sp_project_id self)
                 = Inr (cluster\<lparr>c_endpoint := public\<rparr>)
               \<longrightarrow> sp_fetch_cluster_info other_hook self tr
                   = sp_fetch_cluster_info cluster_hook self tr))"
  using assms by (simp add: sp_fetch_cluster_info_def Let_def)

theorem fetch_cluster_info_endpoint_witness:
  "fst (sp_fetch_cluster_info env_ok (the_start_pod_operator True) [])
     = Inr (''https://10.0.0.2'', ''LS0tLS1CRUdJTg=='')
   \<and> fst (sp_fetch_cluster_info env_ok (the_start_pod_operator False) [])
     = Inr (''https://203.0.113.7'', ''LS0tLS1CRUdJTg=='')"
  using fetch_cluster_info_endpoint [of env_ok "[]" "the_start_pod_operator True" the_cluster]
    fetch_cluster_info_endpoint [of env_ok "[]" "the_start_pod_operator False" the_cluster]
  by (simp add: env_ok_def the_cluster_def the_start_pod_operator_def)

subsection \<open>Connection info across deferral\<close>



subsection \<open>Construction of the pod operator\<close>

lemma kw_config_file_resolve:
  "sp_resolve_on_finish_action of_value args tr = (Inr kw, tr1)
   \<Longrightarrow> kw_config_file kw = kw_config_file (a_kwargs args)"
  by (auto simp: sp_resolve_on_finish_action_def split: option.splits sum.splits)

lemma calls_sp_resolve:
  "calls (snd (sp_resolve_on_finish_action of_value args tr)) = calls tr"
  by (auto simp: sp_resolve_on_finish_action_def calls_def split: option.splits sum.splits)

lemma calls_sp_init: "calls (snd (sp_init of_value pod_init args tr)) = calls tr"
  using calls_sp_resolve [of of_value args tr]
  by (auto simp: sp_init_def Let_def calls_def split: prod.splits sum.splits)

text \<open>
  C7. Let \<^verbatim>\<open>config_file\<close> be given as a non-empty path, and let the constructor of the base
  class keep the \<^verbatim>\<open>config_file\<close> it is given. Then constructing \<^verbatim>\<open>GKEStartPodOperator\<close>
  fails, and makes no call on the control plane. The failure is the \<^verbatim>\<open>AirflowException\<close>
  that names \<^verbatim>\<open>config_file\<close> whenever the earlier steps of the constructor pass: the value
  of \<^verbatim>\<open>on_finish_action\<close> is accepted, the constructor of the base class returns, and
  \<^verbatim>\<open>gcp_conn_id\<close> is not \<^verbatim>\<open>None\<close>.
\<close>

theorem sp_init_rejects_config_file:
  assumes "kw_config_file (a_kwargs args) = Some path" and "path \<noteq> []"
      and "\<forall>kw base. pod_init kw = Inr base \<longrightarrow> p_config_file base = kw_config_file kw"
  shows "(\<exists>e. fst (sp_init of_value pod_init args tr) = Inl e)
       \<and> (\<forall>kw tr1 base.
             sp_resolve_on_finish_action of_value args tr = (Inr kw, tr1)
             \<and> pod_init kw = Inr base \<and> a_gcp_conn_id args \<noteq> None
             \<longrightarrow> fst (sp_init of_value pod_init args tr) =
                   Inl (AirflowException
                          ''config_file is not an allowed parameter for the GKEStartPodOperator.''))
       \<and> calls (snd (sp_init of_value pod_init args tr)) = calls tr"
proof -
  have stored: "p_config_file base = Some path"
    if "sp_resolve_on_finish_action of_value args tr = (Inr kw, tr1)" and "pod_init kw = Inr base"
    for kw tr1 base
    using that assms(1,3) kw_config_file_resolve [of of_value args tr kw tr1] by simp
  have fails: "\<exists>e. fst (sp_init of_value pod_init args tr) = Inl e"
  proof (cases "sp_resolve_on_finish_action of_value args tr")
    case (Pair r tr1)
    show ?thesis
    proof (cases r)
      case (Inl e)
      with Pair show ?thesis by (simp add: sp_init_def)
    next
      case (Inr kw)
      show ?thesis
      proof (cases "pod_init kw")
        case (Inl e)
        with Pair Inr show ?thesis by (simp add: sp_init_def Let_def)
      next
        case base: (Inr base)
        with Pair Inr stored [of kw tr1 base] assms(2) show ?thesis
          by (simp add: sp_init_def Let_def)
      qed
    qed
  qed
  have exact: "\<forall>kw tr1 base.
             sp_resolve_on_finish_action of_value args tr = (Inr kw, tr1)
             \<and> pod_init kw = Inr base \<and> a_gcp_conn_id args \<noteq> None
             \<longrightarrow> fst (sp_init of_value pod_init args tr) =
                   Inl (AirflowException
                          ''config_file is not an allowed parameter for the GKEStartPodOperator.'')"
    using stored assms(2) by (auto simp: sp_init_def Let_def)
  show ?thesis using fails exact calls_sp_init [of of_value pod_init args tr] by blast
qed

theorem sp_init_rejects_config_file_witness:
  "fst (sp_init OnFinishAction the_pod_init
          (the_start_pod_args\<lparr>a_kwargs := (a_kwargs the_start_pod_args)
                                 \<lparr>kw_config_file := Some ''/home/airflow/.kube/config''\<rparr>\<rparr>) [])
   = Inl (AirflowException ''config_file is not an allowed parameter for the GKEStartPodOperator.'')"
  using sp_init_rejects_config_file [of
      "the_start_pod_args\<lparr>a_kwargs := (a_kwargs the_start_pod_args)
                                 \<lparr>kw_config_file := Some ''/home/airflow/.kube/config''\<rparr>\<rparr>"
      "''/home/airflow/.kube/config''" the_pod_init OnFinishAction "[]"]
  by (simp add: the_pod_init_def the_start_pod_args_def sp_resolve_on_finish_action_def)

lemma sp_init_returns:
  assumes "fst (sp_init of_value pod_init args tr) = Inr self"
  shows "\<exists>kw. fst (sp_resolve_on_finish_action of_value args tr) = Inr kw
              \<and> pod_init kw = Inr (sp_base self)"
proof (cases "sp_resolve_on_finish_action of_value args tr")
  case (Pair r tr1)
  show ?thesis
  proof (cases r)
    case (Inl e)
    with Pair assms show ?thesis by (simp add: sp_init_def)
  next
    case (Inr kw)
    show ?thesis
    proof (cases "pod_init kw")
      case (Inl e)
      with Pair Inr assms show ?thesis by (simp add: sp_init_def Let_def)
    next
      case base: (Inr base)
      with Pair Inr assms show ?thesis
        by (auto simp: sp_init_def Let_def split: if_splits)
    qed
  qed
qed

text \<open>
  C8 (as amended). The constructor settles \<^verbatim>\<open>kwargs["on_finish_action"]\<close> once, before it
  calls the constructor of the base class with these keyword arguments. With
  \<^verbatim>\<open>is_delete_operator_pod\<close> true the value is \<^verbatim>\<open>DELETE_POD\<close>, with it false
  \<^verbatim>\<open>KEEP_POD\<close>, in both cases whatever \<^verbatim>\<open>on_finish_action\<close> is: the deprecated
  parameter wins and the combination is not rejected. With neither parameter given the value
  is \<^verbatim>\<open>KEEP_POD\<close>. With \<^verbatim>\<open>on_finish_action\<close> alone it is the member of the enumeration
  with that value, or the constructor fails with the error of the enumeration.
\<close>

theorem sp_init_on_finish_action:
  "(a_is_delete_operator_pod args = Some True \<longrightarrow>
       fst (sp_resolve_on_finish_action of_value args tr) =
         Inr ((a_kwargs args)\<lparr>kw_on_finish_action := Some DELETE_POD\<rparr>))
   \<and> (a_is_delete_operator_pod args = Some False \<longrightarrow>
       fst (sp_resolve_on_finish_action of_value args tr) =
         Inr ((a_kwargs args)\<lparr>kw_on_finish_action := Some KEEP_POD\<rparr>))
   \<and> (a_is_delete_operator_pod args = None \<and> a_on_finish_action args = None \<longrightarrow>
       fst (sp_resolve_on_finish_action of_value args tr) =
         Inr ((a_kwargs args)\<lparr>kw_on_finish_action := Some KEEP_POD\<rparr>))
   \<and> (\<forall>v. a_is_delete_operator_pod args = None \<and> a_on_finish_action args = Some v \<longrightarrow>
       fst (sp_resolve_on_finish_action of_value args tr) =
         (case of_value v of
            Inl e \<Rightarrow> Inl e
          | Inr action \<Rightarrow> Inr ((a_kwargs args)\<lparr>kw_on_finish_action := Some action\<rparr>)))
   \<and> (\<forall>self. fst (sp_init of_value pod_init args tr) = Inr self \<longrightarrow>
        (\<exists>kw. fst (sp_resolve_on_finish_action of_value args tr) = Inr kw
              \<and> pod_init kw = Inr (sp_base self)))"
proof -
  have from_alias: "(a_is_delete_operator_pod args = Some True \<longrightarrow>
       fst (sp_resolve_on_finish_action of_value args tr) =
         Inr ((a_kwargs args)\<lparr>kw_on_finish_action := Some DELETE_POD\<rparr>))
   \<and> (a_is_delete_operator_pod args = Some False \<longrightarrow>
       fst (sp_resolve_on_finish_action of_value args tr) =
         Inr ((a_kwargs args)\<lparr>kw_on_finish_action := Some KEEP_POD\<rparr>))"
    by (simp add: sp_resolve_on_finish_action_def)
  have from_default: "a_is_delete_operator_pod args = None \<and> a_on_finish_action args = None \<longrightarrow>
       fst (sp_resolve_on_finish_action of_value args tr) =
         Inr ((a_kwargs args)\<lparr>kw_on_finish_action := Some KEEP_POD\<rparr>)"
    by (simp add: sp_resolve_on_finish_action_def)
  have from_new: "\<forall>v. a_is_delete_operator_pod args = None \<and> a_on_finish_action args = Some v \<longrightarrow>
       fst (sp_resolve_on_finish_action of_value args tr) =
         (case of_value v of
            Inl e \<Rightarrow> Inl e
          | Inr action \<Rightarrow> Inr ((a_kwargs args)\<lparr>kw_on_finish_action := Some action\<rparr>))"
    by (simp add: sp_resolve_on_finish_action_def split: sum.splits)
  show ?thesis
    using from_alias from_default from_new sp_init_returns [of of_value pod_init args tr] by blast
qed

theorem sp_init_on_finish_action_witness:
  "fst (sp_resolve_on_finish_action OnFinishAction
          (the_start_pod_args\<lparr>a_is_delete_operator_pod := Some True\<rparr>) [])
     = Inr ((a_kwargs the_start_pod_args)\<lparr>kw_on_finish_action := Some DELETE_POD\<rparr>)
   \<and> fst (sp_resolve_on_finish_action OnFinishAction
          (the_start_pod_args\<lparr>a_is_delete_operator_pod := Some False\<rparr>) [])
     = Inr ((a_kwargs the_start_pod_args)\<lparr>kw_on_finish_action := Some KEEP_POD\<rparr>)
   \<and> fst (sp_resolve_on_finish_action OnFinishAction the_start_pod_args [])
     = Inr ((a_kwargs the_start_pod_args)\<lparr>kw_on_finish_action := Some KEEP_POD\<rparr>)
   \<and> fst (sp_resolve_on_finish_action OnFinishAction
          (the_start_pod_args\<lparr>a_on_finish_action := Some ''delete_succeeded_pod''\<rparr>) [])
     = Inr ((a_kwargs the_start_pod_args)\<lparr>kw_on_finish_action := Some DELETE_SUCCEEDED_POD\<rparr>)"
  using sp_init_on_finish_action [of "the_start_pod_args\<lparr>a_is_delete_operator_pod := Some True\<rparr>"
      OnFinishAction "[]" the_pod_init]
    sp_init_on_finish_action [of "the_start_pod_args\<lparr>a_is_delete_operator_pod := Some False\<rparr>"
      OnFinishAction "[]" the_pod_init]
    sp_init_on_finish_action [of the_start_pod_args OnFinishAction "[]" the_pod_init]
    sp_init_on_finish_action [of
      "the_start_pod_args\<lparr>a_on_finish_action := Some ''delete_succeeded_pod''\<rparr>"
      OnFinishAction "[]" the_pod_init]
  by (simp add: the_start_pod_args_def OnFinishAction_def)

text \<open>
  The claim as it is written, that a construction with both the deprecated and the new
  parameter is rejected, fails: the construction returns an operator, with the value of the
  deprecated parameter.
\<close>

theorem sp_init_on_finish_action_counterexample:
  "fst (sp_init OnFinishAction the_pod_init
          (the_start_pod_args\<lparr>a_on_finish_action := Some ''keep_pod'',
                               a_is_delete_operator_pod := Some True\<rparr>) [])
   = Inr ((the_start_pod_operator False)
            \<lparr>sp_base := (sp_base (the_start_pod_operator False))\<lparr>p_on_finish_action := DELETE_POD\<rparr>\<rparr>)"
  by (simp add: sp_init_def sp_resolve_on_finish_action_def the_pod_init_def the_start_pod_args_def
      the_start_pod_operator_def Let_def)

subsection \<open>The session to the cluster\<close>

text \<open>
  C10. While no session is cached, the property \<^verbatim>\<open>hook\<close> raises \<^verbatim>\<open>AttributeError\<close> when
  the cluster URL or the CA certificate is \<^verbatim>\<open>None\<close> and builds nothing; a session it does
  build carries the URL and the certificate of the operator, and is then cached. A newly
  constructed operator has neither value and no cached session. \<^verbatim>\<open>execute\<close> enters the
  method of the base class only after \<^verbatim>\<open>fetch_cluster_info\<close> has set both values, and
  raises without entering it when \<^verbatim>\<open>get_cluster\<close> fails. \<^verbatim>\<open>execute_complete\<close> enters
  the method of the base class only after it has set both values from the keyword arguments.
\<close>

theorem sp_hook_complete_connection_info:
  "(sp_hook_cache self = None \<and> (sp_cluster_url self = None \<or> sp_ssl_ca_cert self = None) \<longrightarrow>
      sp_hook self =
        (Inl (AttributeError
           (''Cluster url and ssl_ca_cert should be defined before using self.hook method. ''
            @ ''Try to use self.get_kube_creds method'')), self))
   \<and> (\<forall>session self'. sp_hook_cache self = None \<and> sp_hook self = (Inr session, self') \<longrightarrow>
          sp_cluster_url self = Some (ph_cluster_url session)
        \<and> sp_ssl_ca_cert self = Some (ph_ssl_ca_cert session)
        \<and> self' = self\<lparr>sp_hook_cache := Some session\<rparr>)
   \<and> (\<forall>created tr1. sp_init of_value pod_init args tr0 = (Inr created, tr1) \<longrightarrow>
          sp_hook_cache created = None \<and> sp_cluster_url created = None
        \<and> sp_ssl_ca_cert created = None)
   \<and> (\<forall>cluster.
          hook_get_cluster cluster_hook tr (PStr (sp_cluster_name self)) (sp_project_id self)
            = Inr cluster \<longrightarrow>
          sp_execute super_execute cluster_hook self tr =
            super_execute
              (self\<lparr>sp_cluster_url :=
                      Some (''https://'' @ (if sp_use_internal_ip self
                                            then c_private_endpoint cluster else c_endpoint cluster)),
                    sp_ssl_ca_cert := Some (c_cluster_ca_certificate cluster)\<rparr>)
              (tr @ [GetCluster (PStr (sp_cluster_name self)) (sp_project_id self)]))
   \<and> (\<forall>e.
          hook_get_cluster cluster_hook tr (PStr (sp_cluster_name self)) (sp_project_id self)
            = Inl e \<longrightarrow>
          sp_execute super_execute cluster_hook self tr =
            (Raise e, self, tr @ [GetCluster (PStr (sp_cluster_name self)) (sp_project_id self)]))
   \<and> (\<forall>url cert. kwargs ''cluster_url'' = Some url \<and> kwargs ''ssl_ca_cert'' = Some cert \<longrightarrow>
          sp_execute_complete super_execute_complete self event kwargs tr =
            super_execute_complete (self\<lparr>sp_cluster_url := url, sp_ssl_ca_cert := cert\<rparr>)
              event kwargs tr)"
proof -
  have unset: "sp_hook_cache self = None \<and> (sp_cluster_url self = None \<or> sp_ssl_ca_cert self = None) \<longrightarrow>
      sp_hook self =
        (Inl (AttributeError
           (''Cluster url and ssl_ca_cert should be defined before using self.hook method. ''
            @ ''Try to use self.get_kube_creds method'')), self)"
    by (simp add: sp_hook_def split: option.splits)
  have built: "\<forall>session self'. sp_hook_cache self = None \<and> sp_hook self = (Inr session, self') \<longrightarrow>
          sp_cluster_url self = Some (ph_cluster_url session)
        \<and> sp_ssl_ca_cert self = Some (ph_ssl_ca_cert session)
        \<and> self' = self\<lparr>sp_hook_cache := Some session\<rparr>"
    by (auto simp: sp_hook_def Let_def split: option.splits)
  have created: "\<forall>created tr1. sp_init of_value pod_init args tr0 = (Inr created, tr1) \<longrightarrow>
          sp_hook_cache created = None \<and> sp_cluster_url created = None
        \<and> sp_ssl_ca_cert created = None"
    by (auto simp: sp_init_def Let_def split: prod.splits sum.splits if_splits)
  have executes: "\<forall>cluster.
          hook_get_cluster cluster_hook tr (PStr (sp_cluster_name self)) (sp_project_id self)
            = Inr cluster \<longrightarrow>
          sp_execute super_execute cluster_hook self tr =
            super_execute
              (self\<lparr>sp_cluster_url :=
                      Some (''https://'' @ (if sp_use_internal_ip self
                                            then c_private_endpoint cluster else c_endpoint cluster)),
                    sp_ssl_ca_cert := Some (c_cluster_ca_certificate cluster)\<rparr>)
              (tr @ [GetCluster (PStr (sp_cluster_name self)) (sp_project_id self)])"
    by (simp add: sp_execute_def sp_fetch_cluster_info_def Let_def)
  have fails: "\<forall>e.
          hook_get_cluster cluster_hook tr (PStr (sp_cluster_name self)) (sp_project_id self)
            = Inl e \<longrightarrow>
          sp_execute super_execute cluster_hook self tr =
            (Raise e, self, tr @ [GetCluster (PStr (sp_cluster_name self)) (sp_project_id self)])"
    by (simp add: sp_execute_def sp_fetch_cluster_info_def Let_def)
  have resumes: "\<forall>url cert. kwargs ''cluster_url'' = Some url \<and> kwargs ''ssl_ca_cert'' = Some cert \<longrightarrow>
          sp_execute_complete super_execute_complete self event kwargs tr =
            super_execute_complete (self\<lparr>sp_cluster_url := url, sp_ssl_ca_cert := cert\<rparr>)
              event kwargs tr"
    by (simp add: sp_execute_complete_def)
  show ?thesis
    using unset built created executes fails resumes by blast
qed

theorem sp_hook_complete_connection_info_witness:
  "sp_hook (the_start_pod_operator False) =
     (Inl (AttributeError
        (''Cluster url and ssl_ca_cert should be defined before using self.hook method. ''
         @ ''Try to use self.get_kube_creds method'')), the_start_pod_operator False)
   \<and> fst (sp_execute (\<lambda>self tr. open_session self () Map.empty tr) env_ok
            (the_start_pod_operator True) [])
       = Return (Inr \<lparr>ph_gcp_conn_id = Some ''google_cloud_default'',
                      ph_cluster_url = ''https://10.0.0.2'',
                      ph_ssl_ca_cert = ''LS0tLS1CRUdJTg=='',
                      ph_impersonation_chain = None\<rparr>)"
  using sp_hook_complete_connection_info [where self = "the_start_pod_operator False"
      and of_value = OnFinishAction and pod_init = the_pod_init and args = the_start_pod_args
      and ?tr0.0 = "[]" and cluster_hook = env_ok and tr = "[]"
      and super_execute = "\<lambda>self tr. open_session self () Map.empty tr"
      and kwargs = Map.empty and super_execute_complete = open_session and event = "()"]
    sp_hook_complete_connection_info [where self = "the_start_pod_operator True"
      and of_value = OnFinishAction and pod_init = the_pod_init and args = the_start_pod_args
      and ?tr0.0 = "[]" and cluster_hook = env_ok and tr = "[]"
      and super_execute = "\<lambda>self tr. open_session self () Map.empty tr"
      and kwargs = Map.empty and super_execute_complete = open_session and event = "()"]
  by (simp add: the_start_pod_operator_def env_ok_def the_cluster_def open_session_def
      sp_hook_def Let_def)

end
